theory Spec2Isabelle
  imports Complex_Main "HOL-Library.AList"
begin

section \<open>Retry delays\<close>

text \<open>
  Three scripts of the repository carry their own retry policy:
  \<^item> \<^verbatim>\<open>enrich_investors.js\<close> (the enrichment script), suffix \<open>_enrich\<close>;
  \<^item> the second script of \<^verbatim>\<open>visible_investor_scraper.js\<close>, which calls itself
    \<^verbatim>\<open>visible_full_scraper.js\<close> (the full scraper, lines 585 onwards), suffix \<open>_full\<close>;
  \<^item> the first script of \<^verbatim>\<open>visible_investor_scraper.js\<close> (the basic scraper,
    lines 1 to 584), suffix \<open>_basic\<close>.
  The scripts reuse the names \<^verbatim>\<open>CONFIG\<close>, \<^verbatim>\<open>getRetryDelay\<close> and \<^verbatim>\<open>makeRequest\<close>,
  so every constant below keeps the source's name and takes the suffix of its script.
  Delays are milliseconds. JavaScript numbers are doubles; every delay computed here is
  an integer far below \<open>2^53\<close>, where double arithmetic is exact, except for the jitter
  of the full scraper, which is modelled over the reals.
\<close>

text \<open>
  The fields of \<^verbatim>\<open>CONFIG\<close> that the retry policy, the pacing and the checkpointing
  read. The full scraper's \<^verbatim>\<open>CONFIG\<close> has two more of them.
\<close>

record config =
  PAUSE_EVERY :: nat
  PAUSE_DURATION :: int
  INITIAL_RETRY_DELAY :: int
  MAX_RETRY_DELAY :: int

record config_full = config +
  MIN_DELAY_BETWEEN_CALLS :: int
  SAVE_EVERY :: nat

definition CONFIG_enrich :: config where
  "CONFIG_enrich =
     \<lparr>PAUSE_EVERY = 50, PAUSE_DURATION = 10000,
      INITIAL_RETRY_DELAY = 5000, MAX_RETRY_DELAY = 300000\<rparr>"

definition CONFIG_full :: config_full where
  "CONFIG_full =
     \<lparr>PAUSE_EVERY = 50, PAUSE_DURATION = 10000,
      INITIAL_RETRY_DELAY = 30000, MAX_RETRY_DELAY = 300000,
      MIN_DELAY_BETWEEN_CALLS = 1500, SAVE_EVERY = 10\<rparr>"

text \<open>
  \<^verbatim>\<open>getRetryDelay\<close>, the closure of \<^verbatim>\<open>enrichLinkedInProfile\<close> (enrich_investors.js, 140-143).
\<close>

definition getRetryDelay_enrich :: "nat \<Rightarrow> int" where
  "getRetryDelay_enrich count =
     (let delay = INITIAL_RETRY_DELAY CONFIG_enrich * 2 ^ (min count 6)
      in min delay (MAX_RETRY_DELAY CONFIG_enrich))"

text \<open>
  \<^verbatim>\<open>getRetryDelay\<close> of the full scraper (visible_investor_scraper.js, 725-734), in two
  steps: \<open>capped_delay_full\<close> is its local \<^verbatim>\<open>delay\<close>, before the jitter is added. The
  value of \<^verbatim>\<open>Math.random()\<close>, a number in \<open>[0, 1)\<close>, is the parameter \<open>random\<close>.
  \<^verbatim>\<open>Math.pow(2, retryCount)\<close> has no bound on the exponent in this script; beyond
  the range of doubles it is \<^verbatim>\<open>Infinity\<close> and \<^verbatim>\<open>Math.min\<close> still returns the cap, as
  \<open>min\<close> does on the unbounded integers here. \<^verbatim>\<open>Math.round\<close> rounds half up, which is
  \<^const>\<open>round\<close>.
\<close>

definition capped_delay_full :: "nat \<Rightarrow> int" where
  "capped_delay_full retryCount =
     min (INITIAL_RETRY_DELAY CONFIG_full * 2 ^ retryCount) (MAX_RETRY_DELAY CONFIG_full)"

definition getRetryDelay_full :: "real \<Rightarrow> nat \<Rightarrow> int" where
  "getRetryDelay_full random retryCount =
     (let delay = real_of_int (capped_delay_full retryCount);
          jitter = delay * 0.2 * (random - 0.5)
      in round (delay + jitter))"

definition MAX_RETRIES_basic :: nat where
  "MAX_RETRIES_basic = 3"

definition RETRY_DELAY_basic :: int where
  "RETRY_DELAY_basic = 5000"

text \<open>
  The backoff formula in the words of the specification:
  \<open>delay = min(base_delay * 2^min(attempt, cap_exponent), max_delay)\<close>.
\<close>

definition spec_backoff :: "int \<Rightarrow> nat \<Rightarrow> int \<Rightarrow> nat \<Rightarrow> int" where
  "spec_backoff base_delay cap_exponent max_delay attempt =
     min (base_delay * 2 ^ (min attempt cap_exponent)) max_delay"

section \<open>Fetchers\<close>

text \<open>
  One HTTP exchange, as the callbacks of \<^verbatim>\<open>https.request\<close> see it: a response with its
  status code and body, an \<^verbatim>\<open>error\<close> event, or the timeout. The body is kept as the
  outcome of \<^verbatim>\<open>JSON.parse\<close> on it: \<open>None\<close> when parsing throws.
\<close>

datatype 'j response =
    Response (statusCode: nat) (data: "'j option")
  | NetworkError
  | Timeout

text \<open>
  The parsed body of the enrichment API: \<^verbatim>\<open>json.status_code\<close> and \<^verbatim>\<open>json.profile\<close>
  (\<open>None\<close> when the field is missing or falsy).
\<close>

record 'p envelope =
  status_code :: nat
  profile :: "'p option"

text \<open>
  \<^verbatim>\<open>enrichLinkedInProfile(linkedinUrl, retryCount)\<close> (enrich_investors.js, 134-218). The
  promise is resolved by a chain of recursive calls, one per HTTP exchange; the exchanges
  that the network delivers are the list argument, in order. The result is \<open>None\<close> while
  the promise is still pending (the exchanges delivered so far all led to a retry), and
  otherwise the delays slept between the attempts together with the resolved value
  (\<open>None\<close> for \<^verbatim>\<open>null\<close>). No branch of the source rejects the promise.
\<close>

definition after_sleep :: "int \<Rightarrow> (int list \<times> 'a) option \<Rightarrow> (int list \<times> 'a) option" where
  "after_sleep delay rest = map_option (\<lambda>(sleeps, v). (delay # sleeps, v)) rest"

fun enrichLinkedInProfile :: "'p envelope response list \<Rightarrow> nat \<Rightarrow> (int list \<times> 'p option) option" where
  "enrichLinkedInProfile [] retryCount = None"
| "enrichLinkedInProfile (Response status body # rest) retryCount =
     (if status = 200 then
        (case body of
           Some json \<Rightarrow>
             if status_code json = 200 \<and> profile json \<noteq> None then Some ([], profile json)
             else Some ([], None)
         | None \<Rightarrow>
             after_sleep (getRetryDelay_enrich retryCount)
               (enrichLinkedInProfile rest (retryCount + 1)))
      else if status = 429 then
        after_sleep (getRetryDelay_enrich retryCount)
          (enrichLinkedInProfile rest (retryCount + 1))
      else if status = 403 then
        after_sleep (max (getRetryDelay_enrich retryCount) 60000)
          (enrichLinkedInProfile rest (retryCount + 1))
      else if status \<ge> 500 then
        after_sleep (getRetryDelay_enrich retryCount)
          (enrichLinkedInProfile rest (retryCount + 1))
      else if status = 404 \<or> status = 400 then Some ([], None)
      else
        after_sleep (getRetryDelay_enrich retryCount)
          (enrichLinkedInProfile rest (retryCount + 1)))"
| "enrichLinkedInProfile (NetworkError # rest) retryCount =
     after_sleep (getRetryDelay_enrich retryCount)
       (enrichLinkedInProfile rest (retryCount + 1))"
| "enrichLinkedInProfile (Timeout # rest) retryCount =
     after_sleep (getRetryDelay_enrich retryCount)
       (enrichLinkedInProfile rest (retryCount + 1))"

text \<open>
  \<^verbatim>\<open>makeRequest(endpoint, retryCount)\<close> of the full scraper
  (visible_investor_scraper.js, 736-804). Every call of \<^verbatim>\<open>getRetryDelay\<close> draws a fresh
  \<^verbatim>\<open>Math.random()\<close>; each exchange is paired with the value drawn while handling it.
\<close>

fun makeRequest_full :: "('j response \<times> real) list \<Rightarrow> nat \<Rightarrow> (int list \<times> 'j option) option" where
  "makeRequest_full [] retryCount = None"
| "makeRequest_full ((Response status body, random) # rest) retryCount =
     (if status = 200 then
        (case body of
           Some json \<Rightarrow> Some ([], Some json)
         | None \<Rightarrow>
             after_sleep (getRetryDelay_full random retryCount)
               (makeRequest_full rest (retryCount + 1)))
      else if status = 429 then
        after_sleep (getRetryDelay_full random retryCount * 2)
          (makeRequest_full rest (retryCount + 1))
      else if status \<ge> 500 then
        after_sleep (getRetryDelay_full random retryCount)
          (makeRequest_full rest (retryCount + 1))
      else if status \<ge> 400 then Some ([], None)
      else
        after_sleep (getRetryDelay_full random retryCount)
          (makeRequest_full rest (retryCount + 1)))"
| "makeRequest_full ((NetworkError, random) # rest) retryCount =
     after_sleep (getRetryDelay_full random retryCount)
       (makeRequest_full rest (retryCount + 1))"
| "makeRequest_full ((Timeout, random) # rest) retryCount =
     after_sleep (getRetryDelay_full random retryCount)
       (makeRequest_full rest (retryCount + 1))"

text \<open>
  \<^verbatim>\<open>makeRequest(endpoint, retryCount)\<close> of the basic scraper
  (visible_investor_scraper.js, 132-194). This one rejects: the resolved value is
  \<open>Inr json\<close>, a rejection is \<open>Inl\<close> of the error.
\<close>

datatype request_error =
    ParseFailure
  | RateLimitExceeded
  | HttpError nat
  | RequestFailed
  | RequestTimeout

fun makeRequest_basic :: "'j response list \<Rightarrow> nat \<Rightarrow> (int list \<times> (request_error + 'j)) option" where
  "makeRequest_basic [] retryCount = None"
| "makeRequest_basic (Response status body # rest) retryCount =
     (if status = 200 then
        (case body of
           Some json \<Rightarrow> Some ([], Inr json)
         | None \<Rightarrow> Some ([], Inl ParseFailure))
      else if status = 429 then
        (if retryCount < MAX_RETRIES_basic then
           after_sleep RETRY_DELAY_basic (makeRequest_basic rest (retryCount + 1))
         else Some ([], Inl RateLimitExceeded))
      else Some ([], Inl (HttpError status)))"
| "makeRequest_basic (NetworkError # rest) retryCount =
     (if retryCount < MAX_RETRIES_basic then
        after_sleep RETRY_DELAY_basic (makeRequest_basic rest (retryCount + 1))
      else Some ([], Inl RequestFailed))"
| "makeRequest_basic (Timeout # rest) retryCount = Some ([], Inl RequestTimeout)"

section \<open>Records and progress of the enrichment script\<close>

text \<open>
  The values found in the JSON files and API bodies. A team member is an object: its own
  properties in insertion order, as \<^verbatim>\<open>JSON.parse\<close> builds it. Reading a missing property
  gives \<^verbatim>\<open>undefined\<close>.
\<close>

datatype js =
    JUndefined
  | JNull
  | JBool bool
  | JNum real
  | JStr string
  | JArr "js list"
  | JObj "(string \<times> js) list"

type_synonym object = "(string \<times> js) list"

definition get :: "object \<Rightarrow> string \<Rightarrow> js" where
  "get obj key = (case map_of obj key of Some v \<Rightarrow> v | None \<Rightarrow> JUndefined)"

text \<open>
  \<^verbatim>\<open>extractEnrichedData(originalMember, contactOutProfile)\<close> (enrich_investors.js,
  224-350). The first branch spreads the member and then sets two properties: a property
  that exists keeps its place and takes the new value, a new one is appended, which is
  \<^const>\<open>AList.update\<close>. The object literal of the second branch (233-349) reads fields
  of its two arguments and the clock only; it is the parameter \<open>merged\<close>.
\<close>

definition extractEnrichedData :: "(object \<Rightarrow> 'p \<Rightarrow> object) \<Rightarrow> object \<Rightarrow> 'p option \<Rightarrow> object" where
  "extractEnrichedData merged originalMember contactOutProfile =
     (case contactOutProfile of
        None \<Rightarrow>
          AList.update ''enriched_at'' JNull
            (AList.update ''enriched'' (JBool False) originalMember)
      | Some p \<Rightarrow> merged originalMember p)"

record stats =
  total :: nat
  enriched :: nat
  notFound :: nat
  noLinkedIn :: nat

record enrich_progress =
  processedIds :: "js list"
  enrichedMembers :: "object list"
  stats :: stats

text \<open>The fresh progress object (enrich_investors.js, 362-371 and 550-554).\<close>

definition empty_progress :: enrich_progress where
  "empty_progress =
     \<lparr>processedIds = [], enrichedMembers = [],
      stats = \<lparr>total = 0, enriched = 0, notFound = 0, noLinkedIn = 0\<rparr>\<rparr>"

text \<open>
  \<^verbatim>\<open>loadProgress()\<close> (356-372): the argument is the parsed content of the progress
  file, \<open>None\<close> when the file is missing or does not parse.
\<close>

definition loadProgress :: "enrich_progress option \<Rightarrow> enrich_progress" where
  "loadProgress file = (case file of Some p \<Rightarrow> p | None \<Rightarrow> empty_progress)"

section \<open>Effects of a run\<close>

text \<open>
  What a run does to the outside is kept in the state: \<open>trace\<close> lists the effects in the
  order they happen, \<open>saved\<close> lists the successive contents of the progress file, one
  per \<^verbatim>\<open>saveProgress\<close>. A call of a fetcher is logged with the argument the source
  passes. The progress bar and the warnings printed inside the fetchers are left out.
\<close>

datatype fetcher =
    EnrichLinkedInProfile
  | FetchInvestorBySlug
  | FetchTeamMembers
  | FetchInvestments

datatype message =
    Checkpoint
  | Resuming
  | UnexpectedError
  | SavingProgress
  | Retrying
  | MarkedProcessed

datatype event =
    SaveProgress
  | SaveOutputs
  | Sleep int
  | Call fetcher js
  | Log message

record 'g run =
  progress :: 'g
  trace :: "event list"
  saved :: "'g list"

definition emit :: "event list \<Rightarrow> ('g, 'z) run_scheme \<Rightarrow> ('g, 'z) run_scheme" where
  "emit events s = s\<lparr>trace := trace s @ events\<rparr>"

definition saveProgress :: "('g, 'z) run_scheme \<Rightarrow> ('g, 'z) run_scheme" where
  "saveProgress s = s\<lparr>trace := trace s @ [SaveProgress], saved := saved s @ [progress s]\<rparr>"

definition saveOutputs :: "('g, 'z) run_scheme \<Rightarrow> ('g, 'z) run_scheme" where
  "saveOutputs s = emit [SaveOutputs] s"

text \<open>
  How a piece of the run ends: it ran to its end, it threw, or it is suspended for ever
  at an \<^verbatim>\<open>await\<close> whose promise stays pending. Each carries the state reached.
\<close>

datatype 'a outcome =
    Done 'a
  | Thrown 'a
  | Pending 'a

section \<open>The orchestration loop of the enrichment script\<close>

text \<open>
  The command-line options (\<^verbatim>\<open>parseArgs\<close>): \<open>limit\<close> is \<open>None\<close> for \<^verbatim>\<open>Infinity\<close>.
  The enrichment script has \<^verbatim>\<open>--dry-run\<close> as well.
\<close>

record options =
  limit :: "nat option"
  delay :: int
  resume :: bool

record options_enrich = options +
  dryRun :: bool

text \<open>
  \<^verbatim>\<open>toProcess\<close> (enrich_investors.js, 561-564). \<^verbatim>\<open>Set.has\<close> compares ids as \<open>=\<close>
  does on strings, numbers and \<^verbatim>\<open>null\<close>, which is what ids are.
\<close>

definition toProcess :: "object list \<Rightarrow> enrich_progress \<Rightarrow> 'z options_scheme \<Rightarrow> object list" where
  "toProcess membersWithLinkedIn prog opts =
     (let processedSet = set (processedIds prog);
          remaining = filter (\<lambda>m. get m ''id'' \<notin> processedSet) membersWithLinkedIn
      in case limit opts of None \<Rightarrow> remaining | Some n \<Rightarrow> take n remaining)"

text \<open>
  The variables of the loop (590-591) next to the progress and the effects; \<open>loop_i\<close> is
  the index \<^verbatim>\<open>i\<close>.
\<close>

record enrich_state = "enrich_progress run" +
  consecutiveInBatch :: nat
  loop_i :: nat

text \<open>
  The statements of the \<^verbatim>\<open>try\<close> block that can throw, by line: the progress bar (597),
  the save before a pause (601), the awaited fetch (609, when the promise rejects because
  its executor throws), the construction of the enriched record (612, second branch of
  \<^verbatim>\<open>extractEnrichedData\<close>), the display of the e-mails found (619-623) and the periodic
  save (632). One iteration meets at most one of them: \<open>fault\<close> says which statement
  throws if the iteration reaches it. \<open>responses\<close> are the HTTP exchanges of the fetch.
\<close>

datatype fault =
    AtPrintProgress
  | AtPauseSave
  | AtFetch
  | AtExtract
  | AtDisplay
  | AtPeriodicSave

record 'p attempt =
  responses :: "'p envelope response list"
  fault :: "fault option"

text \<open>Lines 613-626: the result is recorded and the counters updated.\<close>

definition record_result :: "object \<Rightarrow> js \<Rightarrow> bool \<Rightarrow> enrich_progress \<Rightarrow> enrich_progress" where
  "record_result enrichedMember member_id found prog =
     prog\<lparr>enrichedMembers := enrichedMembers prog @ [enrichedMember],
          processedIds := processedIds prog @ [member_id],
          stats :=
            (if found
             then (stats prog)\<lparr>total := total (stats prog) + 1,
                                 enriched := enriched (stats prog) + 1\<rparr>
             else (stats prog)\<lparr>total := total (stats prog) + 1,
                                 notFound := notFound (stats prog) + 1\<rparr>)\<rparr>"

text \<open>The \<^verbatim>\<open>try\<close> block of the loop (enrich_investors.js, 596-636).\<close>

definition enrich_try ::
  "config \<Rightarrow> (object \<Rightarrow> 'p \<Rightarrow> object) \<Rightarrow> options_enrich \<Rightarrow> object list \<Rightarrow> 'p attempt \<Rightarrow>
   enrich_state \<Rightarrow> enrich_state outcome" where
  "enrich_try cfg merged opts to_process att s =
     (let member = to_process ! loop_i s;
          pausing = (consecutiveInBatch s > 0 \<and> consecutiveInBatch s mod PAUSE_EVERY cfg = 0)
      in
      if fault att = Some AtPrintProgress then Thrown s
      else if pausing \<and> fault att = Some AtPauseSave then Thrown s
      else
        let s1 = (if pausing
                  then emit [Log Checkpoint, Sleep (PAUSE_DURATION cfg), Log Resuming]
                         (saveProgress s)
                  else s);
            s2 = emit [Sleep (delay opts), Call EnrichLinkedInProfile (get member ''linkedin_url'')] s1
        in
        if fault att = Some AtFetch then Thrown s2
        else
          case enrichLinkedInProfile (responses att) 0 of
            None \<Rightarrow> Pending s2
          | Some (sleeps, enrichedProfile) \<Rightarrow>
              let s3 = emit (map Sleep sleeps) s2 in
              if enrichedProfile \<noteq> None \<and> fault att = Some AtExtract then Thrown s3
              else
                let enrichedMember = extractEnrichedData merged member enrichedProfile;
                    s4 = s3\<lparr>progress :=
                              record_result enrichedMember (get member ''id'')
                                (enrichedProfile \<noteq> None) (progress s3)\<rparr>
                in
                if enrichedProfile \<noteq> None \<and> fault att = Some AtDisplay then Thrown s4
                else
                  let s5 = s4\<lparr>consecutiveInBatch := consecutiveInBatch s4 + 1\<rparr> in
                  if (loop_i s5 + 1) mod 10 = 0
                  then (if fault att = Some AtPeriodicSave then Thrown s5
                        else Done ((saveProgress s5)\<lparr>loop_i := loop_i s5 + 1\<rparr>))
                  else Done (s5\<lparr>loop_i := loop_i s5 + 1\<rparr>))"

text \<open>The \<^verbatim>\<open>catch\<close> block (638-649), run on the state reached when the statement threw.\<close>

definition enrich_catch :: "config \<Rightarrow> enrich_state \<Rightarrow> enrich_state" where
  "enrich_catch cfg s =
     emit [Sleep (INITIAL_RETRY_DELAY cfg), Log Retrying]
       (saveProgress (emit [Log UnexpectedError, Log SavingProgress] s))"

text \<open>One pass through the body of the \<^verbatim>\<open>while\<close> loop (594-649).\<close>

definition enrich_iteration ::
  "config \<Rightarrow> (object \<Rightarrow> 'p \<Rightarrow> object) \<Rightarrow> options_enrich \<Rightarrow> object list \<Rightarrow> 'p attempt \<Rightarrow>
   enrich_state \<Rightarrow> enrich_state outcome" where
  "enrich_iteration cfg merged opts to_process att s =
     (case enrich_try cfg merged opts to_process att s of
        Done s' \<Rightarrow> Done s'
      | Thrown s' \<Rightarrow> Done (enrich_catch cfg s')
      | Pending s' \<Rightarrow> Pending s')"

text \<open>
  The \<^verbatim>\<open>while (i < toProcess.length)\<close> loop (593-650). Nothing bounds the number of
  passes, since a pass that throws does not advance \<^verbatim>\<open>i\<close>: the passes that the
  environment lets happen are the list of attempts, one per pass. The loop is \<open>Done\<close> when
  its condition fails, and \<open>Pending\<close> when the attempts end first or a fetch never resolves.
\<close>

fun enrich_loop ::
  "config \<Rightarrow> (object \<Rightarrow> 'p \<Rightarrow> object) \<Rightarrow> options_enrich \<Rightarrow> object list \<Rightarrow> 'p attempt list \<Rightarrow>
   enrich_state \<Rightarrow> enrich_state outcome" where
  "enrich_loop cfg merged opts to_process [] s =
     (if loop_i s < length to_process then Pending s else Done s)"
| "enrich_loop cfg merged opts to_process (att # atts) s =
     (if loop_i s < length to_process then
        (case enrich_iteration cfg merged opts to_process att s of
           Done s' \<Rightarrow> enrich_loop cfg merged opts to_process atts s'
         | Thrown s' \<Rightarrow> Thrown s'
         | Pending s' \<Rightarrow> Pending s')
      else Done s)"

text \<open>
  \<^verbatim>\<open>enrich(options)\<close> from the loading of the progress (550) to the final save (656).
  \<open>membersWithLinkedIn\<close> are the eligible team members (544-546) and \<open>file\<close> the content of
  the progress file.
\<close>

definition start :: "enrich_progress \<Rightarrow> enrich_state" where
  "start prog =
     \<lparr>progress = prog, trace = [], saved = [], consecutiveInBatch = 0, loop_i = 0\<rparr>"

definition enrich ::
  "config \<Rightarrow> (object \<Rightarrow> 'p \<Rightarrow> object) \<Rightarrow> options_enrich \<Rightarrow> enrich_progress option \<Rightarrow> object list \<Rightarrow>
   'p attempt list \<Rightarrow> enrich_state outcome" where
  "enrich cfg merged opts file membersWithLinkedIn atts =
     (let prog = (if resume opts then loadProgress file else empty_progress);
          to_process = toProcess membersWithLinkedIn prog opts
      in
      if dryRun opts then Done (start prog)
      else if length to_process = 0 then Done (start prog)
      else
        case enrich_loop cfg merged opts to_process atts (start prog) of
          Done s \<Rightarrow> Done (saveOutputs (saveProgress s))
        | Thrown s \<Rightarrow> Thrown s
        | Pending s \<Rightarrow> Pending s)"

section \<open>The detail loop of the full scraper\<close>

text \<open>
  The progress object of the full scraper (visible_investor_scraper.js, 1241-1249);
  \<open>total_full\<close> is its field \<^verbatim>\<open>total\<close>, and an entry of \<^verbatim>\<open>allSlugs\<close> is the pair of
  \<^verbatim>\<open>id\<close> and \<^verbatim>\<open>slug\<close>.
\<close>

record scrape_progress =
  processedSlugs :: "js list"
  allSlugs :: "(js \<times> js) list"
  investors :: "object list"
  teamMembers :: "object list"
  investments :: "object list"
  total_full :: nat

record scrape_state = "scrape_progress run" +
  processedSet :: "js list"
  processed :: nat
  consecutiveInThisBatch :: nat

















section \<open>Vocabulary of the properties\<close>

text \<open>
  The state carried by an outcome, whichever it is.
\<close>

definition state_of :: "'a outcome \<Rightarrow> 'a" where
  "state_of r = (case r of Done s \<Rightarrow> s | Thrown s \<Rightarrow> s | Pending s \<Rightarrow> s)"

text \<open>
  A progress record is consistent when it holds as many ids as results.
\<close>

definition consistent :: "enrich_progress \<Rightarrow> bool" where
  "consistent p \<longleftrightarrow> length (processedIds p) = length (enrichedMembers p)"







section \<open>Concrete runs\<close>




definition found :: "js attempt" where
  "found = \<lparr>responses = [Response 200 (Some \<lparr>status_code = 200, profile = Some (JStr ''profile'')\<rparr>)],
            fault = None\<rparr>"







text \<open>
  A fresh run over ten team members with the configuration of the source, in which the
  periodic save of the tenth item (enrich_investors.js, 632) throws once, as
  \<^verbatim>\<open>fs.writeFileSync\<close> does on an input/output error, and every other statement works.
\<close>

definition ten_members :: "object list" where
  "ten_members =
     [[(''id'', JStr ''m1''), (''linkedin_url'', JStr ''u1'')],
      [(''id'', JStr ''m2''), (''linkedin_url'', JStr ''u2'')],
      [(''id'', JStr ''m3''), (''linkedin_url'', JStr ''u3'')],
      [(''id'', JStr ''m4''), (''linkedin_url'', JStr ''u4'')],
      [(''id'', JStr ''m5''), (''linkedin_url'', JStr ''u5'')],
      [(''id'', JStr ''m6''), (''linkedin_url'', JStr ''u6'')],
      [(''id'', JStr ''m7''), (''linkedin_url'', JStr ''u7'')],
      [(''id'', JStr ''m8''), (''linkedin_url'', JStr ''u8'')],
      [(''id'', JStr ''m9''), (''linkedin_url'', JStr ''u9'')],
      [(''id'', JStr ''m10''), (''linkedin_url'', JStr ''u10'')]]"

definition default_options :: options_enrich where
  "default_options = \<lparr>limit = None, delay = 1000, resume = False, dryRun = False\<rparr>"

definition save_fails_once :: "js attempt list" where
  "save_fails_once = replicate 9 found @ [found\<lparr>fault := Some AtPeriodicSave\<rparr>, found]"

definition save_fails_once_result :: "enrich_state outcome" where
  "save_fails_once_result =
     enrich CONFIG_enrich (\<lambda>m p. m) default_options None ten_members save_fails_once"

section \<open>Properties of the retry delays\<close>

lemma CONFIG_enrich_simps:
  "PAUSE_EVERY CONFIG_enrich = 50" "PAUSE_DURATION CONFIG_enrich = 10000"
  "INITIAL_RETRY_DELAY CONFIG_enrich = 5000" "MAX_RETRY_DELAY CONFIG_enrich = 300000"
  by (simp_all add: CONFIG_enrich_def)

lemma CONFIG_full_simps:
  "PAUSE_EVERY CONFIG_full = 50" "PAUSE_DURATION CONFIG_full = 10000"
  "INITIAL_RETRY_DELAY CONFIG_full = 30000" "MAX_RETRY_DELAY CONFIG_full = 300000"
  "MIN_DELAY_BETWEEN_CALLS CONFIG_full = 1500" "SAVE_EVERY CONFIG_full = 10"
  by (simp_all add: CONFIG_full_def)

lemma getRetryDelay_enrich_eq: "getRetryDelay_enrich n = min (5000 * 2 ^ min n 6) 300000"
  by (simp add: getRetryDelay_enrich_def CONFIG_enrich_simps)

lemma capped_delay_full_eq: "capped_delay_full n = min (30000 * 2 ^ n) 300000"
  by (simp add: capped_delay_full_def CONFIG_full_simps)

lemma capped_delay_full_spec: "capped_delay_full n = spec_backoff 30000 6 300000 n"
proof (cases "n \<le> 6")
  case True
  then show ?thesis by (simp add: capped_delay_full_eq spec_backoff_def min_def)
next
  case False
  then have "(2::int) ^ 6 \<le> 2 ^ n" by (intro power_increasing) auto
  then have "(30000::int) * 2 ^ n \<ge> 300000" by simp
  with False show ?thesis by (simp add: capped_delay_full_eq spec_backoff_def min_def)
qed

lemma capped_delay_full_lower: "30000 \<le> capped_delay_full n"
proof -
  have "(1::int) \<le> 2 ^ n" by simp
  then have "(30000::int) \<le> 30000 * 2 ^ n" by simp
  then show ?thesis by (simp add: capped_delay_full_eq)
qed







text \<open>
  Claim C3. For every attempt count \<open>n\<close>, the retry delay of the enrichment script is
  the formula of the specification with base delay 5000, exponent cap 6 and maximum
  300000. The retry delay of the full scraper is the same formula with base delay 30000
  and maximum 300000 (the exponent cap changes nothing there, the maximum being reached at
  \<open>n = 4\<close>), plus a jitter of at most 20 percent of that value, rounded. (The jitter of
  the code is in fact at most 10 percent.)
\<close>

theorem retry_delay_formula:
  assumes "0 \<le> r" and "r < 1"
  shows "getRetryDelay_enrich n = spec_backoff 5000 6 300000 n \<and>
    (\<exists>jitter. \<bar>jitter\<bar> \<le> 0.2 * real_of_int (spec_backoff 30000 6 300000 n) \<and>
          getRetryDelay_full r n = round (real_of_int (spec_backoff 30000 6 300000 n) + jitter))"
proof
  show "getRetryDelay_enrich n = spec_backoff 5000 6 300000 n"
    by (simp add: getRetryDelay_enrich_eq spec_backoff_def)
  let ?F = "real_of_int (spec_backoff 30000 6 300000 n)"
  have F: "0 \<le> ?F" using capped_delay_full_lower[of n] by (simp add: capped_delay_full_spec)
  have "\<bar>r - 0.5\<bar> \<le> 1" using assms by (simp add: abs_le_iff)
  then have "\<bar>?F * 0.2 * (r - 0.5)\<bar> \<le> 0.2 * ?F"
    using F by (simp add: abs_mult mult_left_le)
  moreover have "getRetryDelay_full r n = round (?F + ?F * 0.2 * (r - 0.5))"
    by (simp add: getRetryDelay_full_def Let_def capped_delay_full_spec)
  ultimately show "\<exists>jitter. \<bar>jitter\<bar> \<le> 0.2 * ?F \<and> getRetryDelay_full r n = round (?F + jitter)"
    by blast
qed

text \<open>The formula at attempt 3 of the enrichment script and attempt 2 of the full scraper.\<close>

theorem retry_delay_formula_witness:
  "(0::real) \<le> 1/2 \<and> (1/2::real) < 1 \<and> getRetryDelay_enrich 3 = 40000 \<and>
   spec_backoff 5000 6 300000 3 = 40000 \<and>
   (\<exists>jitter. \<bar>jitter\<bar> \<le> 0.2 * real_of_int (spec_backoff 30000 6 300000 2) \<and>
          getRetryDelay_full (1/2) 2 = round (real_of_int (spec_backoff 30000 6 300000 2) + jitter))"
  using retry_delay_formula [of "1/2" 3] retry_delay_formula [of "1/2" 2]
  by (simp add: spec_backoff_def)




section \<open>Properties of the fetchers\<close>

lemma after_sleep_None [simp]: "after_sleep d None = None"
  by (simp add: after_sleep_def)

lemma after_sleep_Some [simp]: "after_sleep d (Some (sleeps, v)) = Some (d # sleeps, v)"
  by (simp add: after_sleep_def)

lemma enrich_429_pending: "enrichLinkedInProfile (replicate k (Response 429 body)) n = None"
  by (induction k arbitrary: n) simp_all

lemma full_429_pending: "makeRequest_full (replicate k (Response 429 body, r)) n = None"
  by (induction k arbitrary: n) simp_all

text \<open>
  Claim C6 as stated fails for the basic scraper: at the fourth 429 in a row
  (\<open>retryCount = 3 = MAX_RETRIES\<close>) the request is rejected, although the next exchange
  would have succeeded.
\<close>

theorem rate_limit_rejected_counterexample:
  "makeRequest_basic [Response 429 None, Response 200 (Some (JStr ''ok''))] 3
     = Some ([], Inl RateLimitExceeded)"
  by (simp add: MAX_RETRIES_basic_def)

text \<open>
  Claim C6, amended. In the enrichment script and in the full scraper a 429 is retried
  at every attempt count \<open>n\<close>: the request waits its backoff delay (twice the jittered
  delay in the full scraper) and is made again with \<open>n + 1\<close>, and it stays pending as
  long as 429 is all that comes. In the basic scraper a 429 is retried after a fixed
  5000 ms while \<open>n < 3\<close> and rejected from \<open>n = 3\<close> on.
\<close>

theorem rate_limit_retried:
  "enrichLinkedInProfile (Response 429 body # rest) n
     = after_sleep (getRetryDelay_enrich n) (enrichLinkedInProfile rest (n + 1)) \<and>
   enrichLinkedInProfile (replicate k (Response 429 body)) n = None \<and>
   makeRequest_full ((Response 429 body', r) # rest') n
     = after_sleep (getRetryDelay_full r n * 2) (makeRequest_full rest' (n + 1)) \<and>
   makeRequest_full (replicate k (Response 429 body', r)) n = None \<and>
   makeRequest_basic (Response 429 body'' # rest'') n
     = (if n < 3 then after_sleep 5000 (makeRequest_basic rest'' (n + 1))
        else Some ([], Inl RateLimitExceeded))"
  by (simp add: enrich_429_pending full_429_pending MAX_RETRIES_basic_def RETRY_DELAY_basic_def)

text \<open>
  Two 429 and then a profile, in the enrichment script; one 429 at attempt 2 in the
  basic scraper.
\<close>

theorem rate_limit_retried_witness:
  "enrichLinkedInProfile
     [Response 429 None, Response 429 None,
      Response 200 (Some \<lparr>status_code = 200, profile = Some (JStr ''p'')\<rparr>)] 0
     = Some ([5000, 10000], Some (JStr ''p'')) \<and>
   makeRequest_basic [Response 429 None, Response 200 (Some (JStr ''ok''))] 2
     = Some ([5000], Inr (JStr ''ok''))"
  using rate_limit_retried [where body = "None :: js envelope option" and n = 0
      and rest = "[Response 429 None,
        Response 200 (Some \<lparr>status_code = 200, profile = Some (JStr ''p'')\<rparr>)]"]
    rate_limit_retried [where body'' = "None :: js option" and n = 2
      and rest'' = "[Response 200 (Some (JStr ''ok''))]"]
  by (simp add: getRetryDelay_enrich_def CONFIG_enrich_def MAX_RETRIES_basic_def RETRY_DELAY_basic_def)

text \<open>
  Claim C7 as stated fails for the full scraper: a 403 is a client error there, and
  the request resolves to \<^verbatim>\<open>null\<close> at once, without a retry.
\<close>

theorem forbidden_skipped_counterexample:
  "makeRequest_full [(Response 403 None, 1/2), (Response 200 (Some (JStr ''ok'')), 1/2)] 0
     = Some ([], None)"
  by simp

text \<open>
  Claim C7, amended. In the enrichment script a 403 is retried at every attempt count,
  after the maximum of the backoff delay and 60000 ms, hence after a minute at least. In
  the full scraper a 403 makes the request resolve to \<^verbatim>\<open>null\<close> without a retry.
\<close>

theorem forbidden_retried_after_a_minute:
  "enrichLinkedInProfile (Response 403 body # rest) n
     = after_sleep (max (getRetryDelay_enrich n) 60000) (enrichLinkedInProfile rest (n + 1)) \<and>
   60000 \<le> max (getRetryDelay_enrich n) 60000 \<and>
   makeRequest_full ((Response 403 body', r) # rest') n = Some ([], None)"
  by simp

text \<open>
  A 403 at attempt 0 waits 60000 ms, and 160000 ms at attempt 5.
\<close>

theorem forbidden_retried_after_a_minute_witness:
  "enrichLinkedInProfile
     [Response 403 None, Response 200 (Some \<lparr>status_code = 200, profile = Some (JStr ''p'')\<rparr>)] 0
     = Some ([60000], Some (JStr ''p'')) \<and>
   enrichLinkedInProfile
     [Response 403 None, Response 200 (Some \<lparr>status_code = 200, profile = Some (JStr ''p'')\<rparr>)] 5
     = Some ([160000], Some (JStr ''p''))"
  using forbidden_retried_after_a_minute [of "None :: js envelope option"
      "[Response 200 (Some \<lparr>status_code = 200, profile = Some (JStr ''p'')\<rparr>)]" 0 "None :: js option" 0 "[]"]
    forbidden_retried_after_a_minute [of "None :: js envelope option"
      "[Response 200 (Some \<lparr>status_code = 200, profile = Some (JStr ''p'')\<rparr>)]" 5 "None :: js option" 0 "[]"]
  by (simp add: getRetryDelay_enrich_def CONFIG_enrich_def)

section \<open>The record of a profile that was not found\<close>

lemma map_of_extractEnrichedData_None:
  "map_of (extractEnrichedData merged m None) k =
     (if k = ''enriched_at'' then Some JNull
      else if k = ''enriched'' then Some (JBool False)
      else map_of m k)"
  by (simp add: extractEnrichedData_def update_conv')

lemma update_fresh: "k \<notin> fst ` set al \<Longrightarrow> AList.update k v al = al @ [(k, v)]"
  by (induction al) auto

text \<open>
  Claim C10 as stated fails for a member that already has a field \<^verbatim>\<open>enriched\<close>: its
  value is replaced.
\<close>

theorem not_enriched_overwrites_counterexample:
  "get [(''id'', JStr ''7''), (''enriched'', JBool True)] ''enriched'' = JBool True \<and>
   get (extractEnrichedData (\<lambda>m (p :: js). m) [(''id'', JStr ''7''), (''enriched'', JBool True)] None)
     ''enriched'' = JBool False"
  by (simp add: get_def extractEnrichedData_def)

text \<open>
  Claim C10, amended. For every member \<open>m\<close>, \<^verbatim>\<open>extractEnrichedData(m, null)\<close> has the
  fields of \<open>m\<close> and the two fields \<^verbatim>\<open>enriched\<close> and \<^verbatim>\<open>enriched_at\<close>, set to
  \<^verbatim>\<open>false\<close> and \<^verbatim>\<open>null\<close>, and every other field reads as in \<open>m\<close>. When \<open>m\<close> has
  neither of the two fields, the result is \<open>m\<close> followed by them.
\<close>

theorem not_enriched_frame:
  "get (extractEnrichedData merged m None) k =
     (if k = ''enriched_at'' then JNull
      else if k = ''enriched'' then JBool False
      else get m k) \<and>
   fst ` set (extractEnrichedData merged m None) = fst ` set m \<union> {''enriched'', ''enriched_at''} \<and>
   (''enriched'' \<notin> fst ` set m \<and> ''enriched_at'' \<notin> fst ` set m \<longrightarrow>
      extractEnrichedData merged m None = m @ [(''enriched'', JBool False), (''enriched_at'', JNull)])"
proof (intro conjI impI)
  show "get (extractEnrichedData merged m None) k =
     (if k = ''enriched_at'' then JNull
      else if k = ''enriched'' then JBool False
      else get m k)"
    by (simp add: get_def map_of_extractEnrichedData_None)
  show "fst ` set (extractEnrichedData merged m None) = fst ` set m \<union> {''enriched'', ''enriched_at''}"
    by (auto simp add: extractEnrichedData_def dom_update)
  assume "''enriched'' \<notin> fst ` set m \<and> ''enriched_at'' \<notin> fst ` set m"
  then show "extractEnrichedData merged m None = m @ [(''enriched'', JBool False), (''enriched_at'', JNull)]"
    by (simp add: extractEnrichedData_def update_fresh)
qed

text \<open>
  A member with an id and a name.
\<close>

theorem not_enriched_frame_witness:
  "''enriched'' \<notin> fst ` set [(''id'', JStr ''7''), (''name'', JStr ''Ann'')] \<and>
   ''enriched_at'' \<notin> fst ` set [(''id'', JStr ''7''), (''name'', JStr ''Ann'')] \<and>
   extractEnrichedData (\<lambda>m (p :: js). m) [(''id'', JStr ''7''), (''name'', JStr ''Ann'')] None
     = [(''id'', JStr ''7''), (''name'', JStr ''Ann''), (''enriched'', JBool False), (''enriched_at'', JNull)] \<and>
   get (extractEnrichedData (\<lambda>m (p :: js). m) [(''id'', JStr ''7''), (''name'', JStr ''Ann'')] None) ''name''
     = JStr ''Ann''"
  using not_enriched_frame [of "\<lambda>m (p :: js). m" "[(''id'', JStr ''7''), (''name'', JStr ''Ann'')]" "''name''"]
  by (simp add: get_def)

section \<open>Runs without exceptions\<close>

lemma processedIds_record_result [simp]:
  "processedIds (record_result e i f p) = processedIds p @ [i]"
  by (simp add: record_result_def)

lemma enrichedMembers_record_result [simp]:
  "enrichedMembers (record_result e i f p) = enrichedMembers p @ [e]"
  by (simp add: record_result_def)














section \<open>Exceptions in the loop body\<close>






section \<open>Checkpoints of the enrichment script\<close>

text \<open>
  What holds on every path: the items to process exclude every id already processed
  when the run starts, and every progress file written holds as many ids as results.
\<close>

lemma toProcess_excludes_processed:
  "m \<in> set (toProcess membersWithLinkedIn prog opts) \<Longrightarrow>
     m \<in> set membersWithLinkedIn \<and> get m ''id'' \<notin> set (processedIds prog)"
  by (auto simp add: toProcess_def Let_def split: option.splits dest: in_set_takeD)

lemma toProcess_unlimited:
  "limit opts = None \<Longrightarrow>
     toProcess membersWithLinkedIn prog opts =
       filter (\<lambda>m. get m ''id'' \<notin> set (processedIds prog)) membersWithLinkedIn"
  by (simp add: toProcess_def)

lemma consistent_record_result: "consistent p \<Longrightarrow> consistent (record_result e i f p)"
  by (simp add: consistent_def)

lemma enrich_try_consistent:
  assumes "consistent (progress s)" and "\<forall>p\<in>set (saved s). consistent p"
  shows "consistent (progress (state_of (enrich_try cfg merged opts tp att s))) \<and>
         (\<forall>p\<in>set (saved (state_of (enrich_try cfg merged opts tp att s))). consistent p)"
  using assms
  by (auto simp add: enrich_try_def Let_def emit_def saveProgress_def state_of_def
      consistent_record_result split: option.splits)

lemma enrich_iteration_consistent:
  assumes "consistent (progress s)" and "\<forall>p\<in>set (saved s). consistent p"
  shows "consistent (progress (state_of (enrich_iteration cfg merged opts tp att s))) \<and>
         (\<forall>p\<in>set (saved (state_of (enrich_iteration cfg merged opts tp att s))). consistent p)"
proof (cases "enrich_try cfg merged opts tp att s")
  case (Done s')
  with enrich_try_consistent [OF assms, of cfg merged opts tp att]
  show ?thesis by (simp add: enrich_iteration_def state_of_def)
next
  case (Thrown s')
  with enrich_try_consistent [OF assms, of cfg merged opts tp att]
  show ?thesis
    by (auto simp add: enrich_iteration_def state_of_def enrich_catch_def emit_def saveProgress_def)
next
  case (Pending s')
  with enrich_try_consistent [OF assms, of cfg merged opts tp att]
  show ?thesis by (simp add: enrich_iteration_def state_of_def)
qed

lemma enrich_loop_consistent:
  assumes "consistent (progress s)" and "\<forall>p\<in>set (saved s). consistent p"
  shows "consistent (progress (state_of (enrich_loop cfg merged opts tp atts s))) \<and>
         (\<forall>p\<in>set (saved (state_of (enrich_loop cfg merged opts tp atts s))). consistent p)"
  using assms
proof (induction atts arbitrary: s)
  case Nil
  then show ?case by (simp add: state_of_def)
next
  case (Cons att atts)
  show ?case
  proof (cases "loop_i s < length tp")
    case False
    with Cons.prems show ?thesis by (simp add: state_of_def)
  next
    case True
    note it = enrich_iteration_consistent [OF Cons.prems, of cfg merged opts tp att]
    show ?thesis
    proof (cases "enrich_iteration cfg merged opts tp att s")
      case (Done s')
      with it have "consistent (progress s')" "\<forall>p\<in>set (saved s'). consistent p"
        by (simp_all add: state_of_def)
      from Cons.IH [OF this] show ?thesis using True Done by simp
    next
      case (Thrown s')
      with it True show ?thesis by (simp add: state_of_def)
    next
      case (Pending s')
      with it True show ?thesis by (simp add: state_of_def)
    qed
  qed
qed

lemma enrich_consistent:
  assumes "case file of Some p \<Rightarrow> consistent p | None \<Rightarrow> True"
  shows "\<forall>p\<in>set (saved (state_of (enrich cfg merged opts file members atts))). consistent p"
proof -
  define prog where "prog = (if resume opts then loadProgress file else empty_progress)"
  have c: "consistent prog"
    using assms
    by (auto simp add: prog_def loadProgress_def empty_progress_def consistent_def split: option.splits)
  have s: "consistent (progress (start prog))" "\<forall>p\<in>set (saved (start prog)). consistent p"
    using c by (simp_all add: start_def)
  note loop = enrich_loop_consistent [OF s, of cfg merged opts "toProcess members prog opts" atts]
  show ?thesis
  proof (cases "enrich_loop cfg merged opts (toProcess members prog opts) atts (start prog)")
    case (Done s')
    with loop show ?thesis
      by (auto simp add: enrich_def Let_def prog_def [symmetric] state_of_def start_def
          saveOutputs_def saveProgress_def emit_def)
  next
    case (Thrown s')
    with loop show ?thesis
      by (auto simp add: enrich_def Let_def prog_def [symmetric] state_of_def start_def)
  next
    case (Pending s')
    with loop show ?thesis
      by (auto simp add: enrich_def Let_def prog_def [symmetric] state_of_def start_def)
  qed
qed

text \<open>
  The run in which the periodic save of the tenth item throws once, evaluated.
\<close>

lemma save_fails_once_done:
  "save_fails_once_result = Done (state_of save_fails_once_result)"
  by code_simp

lemma save_fails_once_trace:
  "trace (state_of save_fails_once_result) =
       [Sleep 1000, Call EnrichLinkedInProfile (JStr ''u1''),
        Sleep 1000, Call EnrichLinkedInProfile (JStr ''u2''),
        Sleep 1000, Call EnrichLinkedInProfile (JStr ''u3''),
        Sleep 1000, Call EnrichLinkedInProfile (JStr ''u4''),
        Sleep 1000, Call EnrichLinkedInProfile (JStr ''u5''),
        Sleep 1000, Call EnrichLinkedInProfile (JStr ''u6''),
        Sleep 1000, Call EnrichLinkedInProfile (JStr ''u7''),
        Sleep 1000, Call EnrichLinkedInProfile (JStr ''u8''),
        Sleep 1000, Call EnrichLinkedInProfile (JStr ''u9''),
        Sleep 1000, Call EnrichLinkedInProfile (JStr ''u10''),
        Log UnexpectedError, Log SavingProgress, SaveProgress, Sleep 5000, Log Retrying,
        Sleep 1000, Call EnrichLinkedInProfile (JStr ''u10''), SaveProgress,
        SaveProgress, SaveOutputs]"
  by code_simp

lemma save_fails_once_saved:
  "map processedIds (saved (state_of save_fails_once_result)) =
       [[JStr ''m1'', JStr ''m2'', JStr ''m3'', JStr ''m4'', JStr ''m5'',
         JStr ''m6'', JStr ''m7'', JStr ''m8'', JStr ''m9'', JStr ''m10''],
        [JStr ''m1'', JStr ''m2'', JStr ''m3'', JStr ''m4'', JStr ''m5'',
         JStr ''m6'', JStr ''m7'', JStr ''m8'', JStr ''m9'', JStr ''m10'', JStr ''m10''],
        [JStr ''m1'', JStr ''m2'', JStr ''m3'', JStr ''m4'', JStr ''m5'',
         JStr ''m6'', JStr ''m7'', JStr ''m8'', JStr ''m9'', JStr ''m10'', JStr ''m10'']]"
  by code_simp

lemma save_fails_once_results:
  "map (\<lambda>p. length (enrichedMembers p)) (saved (state_of save_fails_once_result)) = [10, 11, 11]"
  by code_simp

text \<open>
  Claim C1: once the id of an item is in \<^verbatim>\<open>processedIds\<close>, the fetcher is not called
  for that item again. The items to process do leave out the ids processed when the run
  starts (\<open>toProcess_excludes_processed\<close>), but the claim fails on the run above. The tenth
  item is recorded before the save throws; the \<^verbatim>\<open>catch\<close> block writes a progress file
  that holds its id \<open>m10\<close>, and the next pass calls the fetcher for the same item again.
\<close>

theorem fetch_repeated_after_late_exception:
  "\<exists>s'. enrich CONFIG_enrich (\<lambda>m p. m) default_options None ten_members save_fails_once = Done s' \<and>
     JStr ''m10'' \<in> set (processedIds (hd (saved s'))) \<and>
     trace s' =
       [Sleep 1000, Call EnrichLinkedInProfile (JStr ''u1''),
        Sleep 1000, Call EnrichLinkedInProfile (JStr ''u2''),
        Sleep 1000, Call EnrichLinkedInProfile (JStr ''u3''),
        Sleep 1000, Call EnrichLinkedInProfile (JStr ''u4''),
        Sleep 1000, Call EnrichLinkedInProfile (JStr ''u5''),
        Sleep 1000, Call EnrichLinkedInProfile (JStr ''u6''),
        Sleep 1000, Call EnrichLinkedInProfile (JStr ''u7''),
        Sleep 1000, Call EnrichLinkedInProfile (JStr ''u8''),
        Sleep 1000, Call EnrichLinkedInProfile (JStr ''u9''),
        Sleep 1000, Call EnrichLinkedInProfile (JStr ''u10''),
        Log UnexpectedError, Log SavingProgress, SaveProgress, Sleep 5000, Log Retrying,
        Sleep 1000, Call EnrichLinkedInProfile (JStr ''u10''), SaveProgress,
        SaveProgress, SaveOutputs]"
proof -
  have "JStr ''m10'' \<in> set (processedIds (hd (saved (state_of save_fails_once_result))))"
    using save_fails_once_saved by (cases "saved (state_of save_fails_once_result)") auto
  then show ?thesis
    using save_fails_once_done save_fails_once_trace
    unfolding save_fails_once_result_def by metis
qed

text \<open>
  Claim C2: after every save, the progress file holds as many ids as results and every
  id once, on every path of the loop. The two counts are equal on every path
  (\<open>enrich_consistent\<close>), but the claim fails on the run above. The progress file written
  by the \<^verbatim>\<open>catch\<close> block holds every id once; the two written after the item is
  fetched again hold the id \<open>m10\<close> twice, with eleven results for ten items.
\<close>

theorem checkpoint_duplicate_after_late_exception:
  "\<exists>s'. enrich CONFIG_enrich (\<lambda>m p. m) default_options None ten_members save_fails_once = Done s' \<and>
     map processedIds (saved s') =
       [[JStr ''m1'', JStr ''m2'', JStr ''m3'', JStr ''m4'', JStr ''m5'',
         JStr ''m6'', JStr ''m7'', JStr ''m8'', JStr ''m9'', JStr ''m10''],
        [JStr ''m1'', JStr ''m2'', JStr ''m3'', JStr ''m4'', JStr ''m5'',
         JStr ''m6'', JStr ''m7'', JStr ''m8'', JStr ''m9'', JStr ''m10'', JStr ''m10''],
        [JStr ''m1'', JStr ''m2'', JStr ''m3'', JStr ''m4'', JStr ''m5'',
         JStr ''m6'', JStr ''m7'', JStr ''m8'', JStr ''m9'', JStr ''m10'', JStr ''m10'']] \<and>
     map (\<lambda>p. length (enrichedMembers p)) (saved s') = [10, 11, 11] \<and>
     \<not> distinct (processedIds (last (saved s')))"
proof -
  have "\<not> distinct (processedIds (last (saved (state_of save_fails_once_result))))"
  proof -
    have "processedIds (last (saved (state_of save_fails_once_result))) =
        last (map processedIds (saved (state_of save_fails_once_result)))"
      using save_fails_once_saved by (subst last_map) auto
    then show ?thesis by (simp add: save_fails_once_saved)
  qed
  then show ?thesis
    using save_fails_once_done save_fails_once_saved save_fails_once_results
    unfolding save_fails_once_result_def by metis
qed

end
